theory Spec2Isabelle
  imports Complex_Main "HOL-Library.Log_Nat"
begin

section \<open>The symbolic-graph tutorials: gradient descent on a quadratic cost\<close>

text \<open>
  Both tensorFlow tutorials build a cost graph over one variable \<open>w\<close>, ask the
  gradient-descent optimizer (learning rate 0.01) to minimize it, and run the
  training node in a session. The graph is modelled as an expression tree, the
  optimizer's gradient as its symbolic derivative with respect to \<open>w\<close>, and
  the session as a record holding the current value of \<open>w\<close>. The programs
  are given twice: over an exact field, and in the float32 arithmetic the
  notebooks declare (\<open>dtype = tf.float32\<close>).
\<close>

datatype 'a graph =
    W
  | Const 'a
  | Placeholder nat nat
  | Add "'a graph" "'a graph"
  | Multiply "'a graph" "'a graph"
  | Pow "'a graph" nat

text \<open>The value fed for a placeholder: a matrix as a list of rows.\<close>

type_synonym 'a feed = "'a list list"

fun run_graph :: "'a::field feed \<Rightarrow> 'a \<Rightarrow> 'a graph \<Rightarrow> 'a" where
  "run_graph x w W = w"
| "run_graph x w (Const c) = c"
| "run_graph x w (Placeholder i j) = x ! i ! j"
| "run_graph x w (Add a b) = run_graph x w a + run_graph x w b"
| "run_graph x w (Multiply a b) = run_graph x w a * run_graph x w b"
| "run_graph x w (Pow a n) = run_graph x w a ^ n"

text \<open>The gradient graph the optimizer derives from the cost graph.\<close>

fun gradients :: "'a::field graph \<Rightarrow> 'a graph" where
  "gradients W = Const 1"
| "gradients (Const c) = Const 0"
| "gradients (Placeholder i j) = Const 0"
| "gradients (Add a b) = Add (gradients a) (gradients b)"
| "gradients (Multiply a b) =
     Add (Multiply (gradients a) b) (Multiply a (gradients b))"
| "gradients (Pow a n) =
     Multiply (Multiply (Const (of_nat n)) (Pow a (n - 1))) (gradients a)"

record 'a session =
  w_value :: 'a

datatype error = ValueError | DataError

text \<open>\<open>session.run(init)\<close>: \<open>w = tf.Variable(0, dtype = tf.float32)\<close>.\<close>

definition run_init :: "'a::field session" where
  "run_init = \<lparr>w_value = 0\<rparr>"

text \<open>\<open>session.run(w)\<close>.\<close>

definition run_w :: "'a session \<Rightarrow> 'a" where
  "run_w s = w_value s"

text \<open>
  \<open>tf.train.GradientDescentOptimizer(rate).minimize(cost)\<close>, run once:
  \<open>w\<close> moves against the gradient of the cost at the current \<open>w\<close>. This is
  the update without rounding; \<open>minimize32\<close> below is the update as float32
  computes it.
\<close>

definition minimize :: "'a::field \<Rightarrow> 'a graph \<Rightarrow> 'a feed \<Rightarrow> 'a session \<Rightarrow> 'a session" where
  "minimize rate cost x s =
     s\<lparr>w_value := w_value s - rate * run_graph x (w_value s) (gradients cost)\<rparr>"

subsection \<open>Tutorial 1\<close>

text \<open>\<open>cost = tf.add(tf.add(w**2, tf.multiply(-10., w)), 25)\<close>\<close>

definition cost1 :: "'a::field graph" where
  "cost1 = Add (Add (Pow W 2) (Multiply (Const (- 10)) W)) (Const 25)"

text \<open>\<open>session.run(train)\<close>; the graph has no placeholder, nothing is fed.\<close>

definition train1 :: "'a::field session \<Rightarrow> 'a session" where
  "train1 s = minimize (1 / 100) cost1 [] s"

subsection \<open>Tutorial 2\<close>

text \<open>
  \<open>x = tf.placeholder(tf.float32, [3,1])\<close>,
  \<open>cost = x[0][0]*w**2 + x[1][0]*w + x[2][0]\<close>
\<close>

definition cost2 :: "'a::field graph" where
  "cost2 = Add (Add (Multiply (Placeholder 0 0) (Pow W 2))
                    (Multiply (Placeholder 1 0) W))
               (Placeholder 2 0)"

text \<open>\<open>coefficients = np.array([[1.], [-20.], [100]])\<close>\<close>

definition coefficients :: "'a::field feed" where
  "coefficients = [[1], [- 20], [100]]"

text \<open>
  \<open>session.run(train, feed_dict = {x:coefficients})\<close>: the fed value must have
  the placeholder's shape \<open>[3,1]\<close>, otherwise the run is refused.
\<close>

definition train2 :: "'a::field feed \<Rightarrow> 'a session \<Rightarrow> error + 'a session" where
  "train2 x s =
     (if length x = 3 \<and> list_all (\<lambda>row. length row = 1) x
      then Inr (minimize (1 / 100) cost2 x s)
      else Inl ValueError)"

text \<open>\<open>for i in range(n): session.run(train, feed_dict = {x:coefficients})\<close>\<close>

fun train2_loop :: "nat \<Rightarrow> 'a::field feed \<Rightarrow> 'a session \<Rightarrow> error + 'a session" where
  "train2_loop 0 x s = Inr s"
| "train2_loop (Suc n) x s =
     (case train2 x s of Inl e \<Rightarrow> Inl e | Inr s' \<Rightarrow> train2_loop n x s')"

text \<open>
  The tutorial as the notebook runs it: initialise, one training step (cell 5),
  then a loop of 1000 steps (cell 6), then read \<open>w\<close>; here without rounding,
  as \<open>tutorial2_float32\<close> below in float32.
\<close>

definition tutorial2 :: "error + rat" where
  "tutorial2 =
     (case train2 coefficients run_init of
        Inl e \<Rightarrow> Inl e
      | Inr s \<Rightarrow>
          (case train2_loop 1000 coefficients s of
             Inl e \<Rightarrow> Inl e
           | Inr s' \<Rightarrow> Inr (run_w s')))"

subsection \<open>The same programs in float32\<close>

text \<open>
  \<open>w\<close> and \<open>x\<close> are declared \<open>tf.float32\<close>: every node of the graph and both
  operations of the optimizer's update \<open>w -= rate * gradient\<close> round their
  result to the nearest float32, ties to even. A float32 is modelled as the
  rational it denotes: 24 significant bits, the exponent of the unit in the
  last place not below \<open>-149\<close>. Infinities are not modelled (the tutorials stay
  below 16).
\<close>

definition round_half_even :: "rat \<Rightarrow> int" where
  "round_half_even q =
     (let f = \<lfloor>q\<rfloor>; r = q - of_int f
      in if r < 1 / 2 then f
         else if 1 / 2 < r then f + 1
         else if even f then f else f + 1)"

definition pow2 :: "int \<Rightarrow> rat" where
  "pow2 k = (if 0 \<le> k then 2 ^ nat k else 1 / 2 ^ nat (- k))"

text \<open>The binary exponent of a non-zero rational: \<open>2\<^sup>e \<le> |q| < 2\<^sup>e\<^sup>+\<^sup>1\<close>.\<close>

definition exponent :: "rat \<Rightarrow> int" where
  "exponent q =
     (if 1 \<le> \<bar>q\<bar> then bitlen \<lfloor>\<bar>q\<bar>\<rfloor> - 1
      else - bitlen (\<lceil>1 / \<bar>q\<bar>\<rceil> - 1))"

definition float32 :: "rat \<Rightarrow> rat" where
  "float32 q =
     (if q = 0 then 0
      else let ulp = pow2 (max (exponent q) (- 126) - 23)
           in of_int (round_half_even (q / ulp)) * ulp)"

fun run_graph32 :: "rat feed \<Rightarrow> rat \<Rightarrow> rat graph \<Rightarrow> rat" where
  "run_graph32 x w W = w"
| "run_graph32 x w (Const c) = float32 c"
| "run_graph32 x w (Placeholder i j) = float32 (x ! i ! j)"
| "run_graph32 x w (Add a b) = float32 (run_graph32 x w a + run_graph32 x w b)"
| "run_graph32 x w (Multiply a b) = float32 (run_graph32 x w a * run_graph32 x w b)"
| "run_graph32 x w (Pow a n) = float32 (run_graph32 x w a ^ n)"

definition minimize32 :: "rat \<Rightarrow> rat graph \<Rightarrow> rat feed \<Rightarrow> rat session \<Rightarrow> rat session" where
  "minimize32 rate cost x s =
     s\<lparr>w_value :=
         float32 (w_value s
                  - float32 (float32 rate * run_graph32 x (w_value s) (gradients cost)))\<rparr>"

text \<open>Tutorial 1: \<open>session.run(train)\<close>, and the loop of cell 7.\<close>

definition train1_float32 :: "rat session \<Rightarrow> rat session" where
  "train1_float32 s = minimize32 (1 / 100) cost1 [] s"

fun train1_float32_loop :: "nat \<Rightarrow> rat session \<Rightarrow> rat session" where
  "train1_float32_loop 0 s = s"
| "train1_float32_loop (Suc n) s = train1_float32_loop n (train1_float32 s)"

text \<open>
  What cells 6 and 7 of tutorial 1 print: \<open>w\<close> after one step, and after 1000
  more.
\<close>

definition tutorial1_float32 :: "rat \<times> rat" where
  "tutorial1_float32 =
     (let s = train1_float32 run_init
      in (run_w s, run_w (train1_float32_loop 1000 s)))"

text \<open>Tutorial 2: the fed training step, its loop, and the whole run.\<close>

definition train2_float32 :: "rat feed \<Rightarrow> rat session \<Rightarrow> error + rat session" where
  "train2_float32 x s =
     (if length x = 3 \<and> list_all (\<lambda>row. length row = 1) x
      then Inr (minimize32 (1 / 100) cost2 x s)
      else Inl ValueError)"

fun train2_float32_loop :: "nat \<Rightarrow> rat feed \<Rightarrow> rat session \<Rightarrow> error + rat session" where
  "train2_float32_loop 0 x s = Inr s"
| "train2_float32_loop (Suc n) x s =
     (case train2_float32 x s of
        Inl e \<Rightarrow> Inl e
      | Inr s' \<Rightarrow> train2_float32_loop n x s')"

definition tutorial2_float32 :: "error + rat" where
  "tutorial2_float32 =
     (case train2_float32 coefficients run_init of
        Inl e \<Rightarrow> Inl e
      | Inr s \<Rightarrow>
          (case train2_float32_loop 1000 coefficients s of
             Inl e \<Rightarrow> Inl e
           | Inr s' \<Rightarrow> Inr (run_w s')))"

section \<open>The Happy House notebook: a sequential model of framework layers\<close>

text \<open>
  \<open>HappyModel\<close> chains framework layers on a symbolic tensor. What the chain
  decides is shapes and parameter counts, which \<open>happyModel.summary()\<close> prints;
  the layers' rules are the framework's (channels last, \<open>valid\<close> padding, a
  pooling stride equal to the window, a bias in every convolution and dense
  layer, four vectors in a batch normalization of which the two moving
  statistics are not trainable; a convolution wants at least one input
  channel, and \<open>Flatten\<close> an example of rank 2 or more). A shape is the shape of
  one example: the batch axis, \<open>None\<close> in the summary, is left out.
\<close>

type_synonym shape = "nat list"

datatype activation = Relu | Sigmoid

datatype layer =
    ZeroPadding2D "nat \<times> nat"
  | Conv2D nat "nat \<times> nat" "nat \<times> nat"
  | BatchNormalization nat
  | Activation activation
  | MaxPooling2D "nat \<times> nat"
  | Flatten
  | Dense nat activation

text \<open>
  The length of one spatial axis after a \<open>valid\<close> window of \<open>filter_size\<close>
  moved by \<open>stride\<close>: \<open>(input_length - filter_size + 1 + stride - 1) // stride\<close>.
  A window that does not fit gives a negative length, which the backend
  refuses when the layer is called.
\<close>

definition conv_output_length :: "nat \<Rightarrow> nat \<Rightarrow> nat \<Rightarrow> error + nat" where
  "conv_output_length input_length filter_size stride =
     (if filter_size = 0 \<or> stride = 0 \<or> input_length < filter_size then Inl ValueError
      else Inr ((input_length - filter_size + 1 + stride - 1) div stride))"

fun compute_output_shape :: "layer \<Rightarrow> shape \<Rightarrow> error + shape" where
  "compute_output_shape (ZeroPadding2D (ph, pw)) s =
     (case s of
        [h, w, c] \<Rightarrow> Inr [h + 2 * ph, w + 2 * pw, c]
      | _ \<Rightarrow> Inl ValueError)"
| "compute_output_shape (Conv2D filters (kh, kw) (sh, sw)) s =
     (case s of
        [h, w, c] \<Rightarrow>
          (if c = 0 then Inl ValueError
           else
             (case conv_output_length h kh sh of
                Inl e \<Rightarrow> Inl e
              | Inr rows \<Rightarrow>
                  (case conv_output_length w kw sw of
                     Inl e \<Rightarrow> Inl e
                   | Inr cols \<Rightarrow> Inr [rows, cols, filters])))
      | _ \<Rightarrow> Inl ValueError)"
| "compute_output_shape (BatchNormalization axis) s =
     (if 1 \<le> axis \<and> axis \<le> length s then Inr s else Inl ValueError)"
| "compute_output_shape (Activation a) s = Inr s"
| "compute_output_shape (MaxPooling2D (ph, pw)) s =
     (case s of
        [h, w, c] \<Rightarrow>
          (case conv_output_length h ph ph of
             Inl e \<Rightarrow> Inl e
           | Inr rows \<Rightarrow>
               (case conv_output_length w pw pw of
                  Inl e \<Rightarrow> Inl e
                | Inr cols \<Rightarrow> Inr [rows, cols, c]))
      | _ \<Rightarrow> Inl ValueError)"
| "compute_output_shape Flatten s =
     (if length s < 2 then Inl ValueError else Inr [prod_list s])"
| "compute_output_shape (Dense units a) s =
     (if s = [] then Inl ValueError else Inr (butlast s @ [units]))"

text \<open>
  The weights a layer creates for an input of shape \<open>s\<close>: the number of
  trainable scalars and the number of non-trainable ones.
\<close>

fun count_params :: "layer \<Rightarrow> shape \<Rightarrow> nat \<times> nat" where
  "count_params (Conv2D filters (kh, kw) strides) s =
     (kh * kw * last s * filters + filters, 0)"
| "count_params (BatchNormalization axis) s =
     (2 * (s ! (axis - 1)), 2 * (s ! (axis - 1)))"
| "count_params (Dense units a) s = (last s * units + units, 0)"
| "count_params (ZeroPadding2D p) s = (0, 0)"
| "count_params (Activation a) s = (0, 0)"
| "count_params (MaxPooling2D p) s = (0, 0)"
| "count_params Flatten s = (0, 0)"

text \<open>
  A symbolic tensor carries its shape and the rows of the layers behind it:
  each row is a layer's output shape with its trainable and non-trainable
  parameter counts, as one line of the summary.
\<close>

type_synonym row = "shape \<times> nat \<times> nat"

record tensor =
  tensor_shape :: shape
  history :: "row list"

record model =
  layers :: "row list"

definition Input :: "shape \<Rightarrow> error + tensor" where
  "Input input_shape =
     Inr \<lparr>tensor_shape = input_shape, history = [(input_shape, 0, 0)]\<rparr>"

text \<open>Calling a layer on a tensor, \<open>X = layer(X)\<close>; a failure earlier in the chain stays.\<close>

definition call :: "layer \<Rightarrow> error + tensor \<Rightarrow> error + tensor" where
  "call l X =
     (case X of
        Inl e \<Rightarrow> Inl e
      | Inr t \<Rightarrow>
          (case compute_output_shape l (tensor_shape t) of
             Inl e \<Rightarrow> Inl e
           | Inr s \<Rightarrow>
               Inr \<lparr>tensor_shape = s,
                    history = history t @ [(s, count_params l (tensor_shape t))]\<rparr>))"

definition Model :: "error + tensor \<Rightarrow> error + tensor \<Rightarrow> error + model" where
  "Model inputs outputs =
     (case inputs of
        Inl e \<Rightarrow> Inl e
      | Inr i \<Rightarrow>
          (case outputs of
             Inl e \<Rightarrow> Inl e
           | Inr t \<Rightarrow> Inr \<lparr>layers = history t\<rparr>))"

definition HappyModel :: "shape \<Rightarrow> error + model" where
  "HappyModel input_shape =
     (let X_input = Input input_shape;
          X = call (ZeroPadding2D (3, 3)) X_input;
          X = call (Conv2D 32 (7, 7) (1, 1)) X;
          X = call (BatchNormalization 3) X;
          X = call (Activation Relu) X;
          X = call (MaxPooling2D (2, 2)) X;
          X = call Flatten X;
          X = call (Dense 1 Sigmoid) X
      in Model X_input X)"

text \<open>\<open>happyModel = HappyModel((64,64,3))\<close>\<close>

definition happyModel :: "error + model" where
  "happyModel = HappyModel [64, 64, 3]"

text \<open>What \<open>summary()\<close> reports: the rows, and the three totals under them.\<close>

definition output_shape :: "model \<Rightarrow> shape" where
  "output_shape m = fst (last (layers m))"

definition trainable_count :: "model \<Rightarrow> nat" where
  "trainable_count m = sum_list (map (\<lambda>(s, t, n). t) (layers m))"

definition non_trainable_count :: "model \<Rightarrow> nat" where
  "non_trainable_count m = sum_list (map (\<lambda>(s, t, n). n) (layers m))"

definition total_params :: "model \<Rightarrow> nat" where
  "total_params m = trainable_count m + non_trainable_count m"

definition summary :: "model \<Rightarrow> (shape \<times> nat) list" where
  "summary m = map (\<lambda>(s, t, n). (s, t + n)) (layers m)"

subsection \<open>Evaluation\<close>

text \<open>
  Modelled from the spec: \<open>evaluate\<close> is the framework's and not among the
  sources, which only call it (\<open>happyModel.evaluate(x = X_test, y = Y_test)\<close>).
  It is one forward pass over the evaluation set with no parameter change;
  the loss is the one the notebook compiles the model with
  (\<open>binary_crossentropy\<close>), averaged over the examples, and the accuracy is the
  fraction of predictions whose thresholded sigmoid output matches the binary
  label. The network up to the last layer's pre-activation is a parameter
  \<open>net\<close>; the last layer is \<open>Dense(1, activation = 'sigmoid')\<close>. Numbers are
  exact reals. A mean over no example is undefined: the empty dataset is
  refused with the spec's error for an insufficiently sized dataset.
\<close>

definition sigmoid :: "real \<Rightarrow> real" where
  "sigmoid z = 1 / (1 + exp (- z))"

definition predict :: "('x \<Rightarrow> real) \<Rightarrow> 'x \<Rightarrow> real" where
  "predict net x = sigmoid (net x)"

definition binary_crossentropy :: "bool \<Rightarrow> real \<Rightarrow> real" where
  "binary_crossentropy y p = - (of_bool y * ln p + (1 - of_bool y) * ln (1 - p))"

definition binary_accuracy :: "bool \<Rightarrow> real \<Rightarrow> real" where
  "binary_accuracy y p = of_bool ((1 / 2 < p) = y)"

definition mean :: "real list \<Rightarrow> real" where
  "mean xs = sum_list xs / real (length xs)"

definition evaluate :: "('x \<Rightarrow> real) \<Rightarrow> ('x \<times> bool) list \<Rightarrow> error + real \<times> real" where
  "evaluate net dataset =
     (if dataset = [] then Inl DataError
      else Inr (mean (map (\<lambda>(x, y). binary_crossentropy y (predict net x)) dataset),
                mean (map (\<lambda>(x, y). binary_accuracy y (predict net x)) dataset)))"

section \<open>Gradient descent: the optimizer's gradient and the two tutorials\<close>

text \<open>The gradient graph computes the derivative of the cost graph in \<open>w\<close>.\<close>

lemma gradients_derivative:
  fixes e :: "real graph"
  shows "((\<lambda>w. run_graph x w e) has_field_derivative run_graph x w (gradients e)) (at w)"
proof (induction e)
  case (Pow e n)
  then show ?case
    by (auto intro!: derivative_eq_intros)
qed (auto intro!: derivative_eq_intros)

lemma cost1_value: "run_graph x w cost1 = w\<^sup>2 - 10 * w + 25"
  by (simp add: cost1_def)

lemma cost2_coefficients: "run_graph coefficients w cost2 = w\<^sup>2 - 20 * w + 100"
  by (simp add: cost2_def coefficients_def)

lemma train1_step: "train1 s = s\<lparr>w_value := w_value s - (2 * w_value s - 10) / 100\<rparr>"
  by (simp add: train1_def minimize_def cost1_def)

lemma train2_coefficients:
  "train2 coefficients s = Inr (s\<lparr>w_value := w_value s - (2 * w_value s - 20) / 100\<rparr>)"
  by (simp add: train2_def minimize_def cost2_def coefficients_def)

text \<open>
  Claim C8. In tutorial 1 (cost \<open>w\<^sup>2 - 10w + 25\<close>, learning rate 1/100), reading
  \<open>w\<close> right after initialization gives 0; one training step is
  \<open>w \<leftarrow> w - (1/100) (2w - 10)\<close>; after exactly one step from the initial value,
  \<open>w\<close> is exactly 1/10 in rational arithmetic.
\<close>

theorem tutorial1_first_step:
  "run_w (run_init :: rat session) = 0
   \<and> (\<forall>s :: rat session. run_w (train1 s) = run_w s - (1 / 100) * (2 * run_w s - 10))
   \<and> run_w (train1 (run_init :: rat session)) = 1 / 10"
  by (simp add: train1_step run_w_def run_init_def)

text \<open>
  With the coefficients fed, each step contracts the distance to 10 by 49/50.
\<close>

lemma train2_loop_closed:
  fixes s :: "'a::field_char_0 session"
  shows "train2_loop n coefficients s =
     Inr (s\<lparr>w_value := 10 + (49 / 50) ^ n * (w_value s - 10)\<rparr>)"
proof (induction n arbitrary: s)
  case 0
  then show ?case by simp
next
  case (Suc n)
  show ?case
    by (simp add: train2_coefficients Suc.IH field_simps)
qed

lemma halving_35: "(49 / 50 :: rat) ^ 35 < 1 / 2"
  by (simp add: power_divide)

lemma decay_1000: "(49 / 50 :: rat) ^ 1000 < 1 / 10000"
proof -
  have "(49 / 50 :: rat) ^ 1000 = ((49 / 50) ^ 35) ^ 28 * (49 / 50) ^ 20"
    by (simp flip: power_mult power_add)
  also have "\<dots> \<le> (1 / 2) ^ 28 * 1"
    by (intro mult_mono power_mono less_imp_le [OF halving_35] power_le_one) simp_all
  also have "\<dots> < 1 / 10000"
    by (simp add: power_divide)
  finally show ?thesis .
qed

lemma tutorial2_exact:
  "(\<forall>s :: rat session. train2 coefficients s
        = Inr (s\<lparr>w_value := run_w s - (1 / 100) * (2 * 1 * run_w s + (- 20))\<rparr>))
   \<and> (\<forall>s :: rat session. (train2 coefficients s = Inr s) = (run_w s = 10))
   \<and> (\<exists>v. tutorial2 = Inr v \<and> \<bar>v - 10\<bar> < 1 / 1000)"
proof (intro conjI allI)
  fix s :: "rat session"
  show "train2 coefficients s
        = Inr (s\<lparr>w_value := run_w s - (1 / 100) * (2 * 1 * run_w s + (- 20))\<rparr>)"
    by (simp add: train2_coefficients run_w_def)
  show "(train2 coefficients s = Inr s) = (run_w s = 10)"
    by (cases s) (auto simp add: train2_coefficients run_w_def)
next
  have "tutorial2 = Inr (10 + (49 / 50) ^ 1000 * (1 / 5 - 10))"
    by (simp add: tutorial2_def train2_coefficients train2_loop_closed run_w_def run_init_def)
  moreover have "\<bar>(10 + (49 / 50) ^ 1000 * (1 / 5 - 10)) - 10\<bar> < (1 / 1000 :: rat)"
    using decay_1000 by (simp add: abs_mult)
  ultimately show "\<exists>v. tutorial2 = Inr v \<and> \<bar>v - 10\<bar> < 1 / 1000"
    by blast
qed

section \<open>Gradient descent in float32\<close>

subsection \<open>Rounding: the exponent and the error of one rounding\<close>

lemma pow2_pos: "0 < pow2 k"
  by (simp add: pow2_def)

lemma round_half_even_error: "\<bar>of_int (round_half_even t) - t\<bar> \<le> 1 / 2"
proof -
  have "of_int \<lfloor>t\<rfloor> \<le> t" "t < of_int \<lfloor>t\<rfloor> + 1"
    by linarith+
  then show ?thesis
    by (auto simp add: round_half_even_def Let_def)
qed

lemma exponent_bounds:
  assumes "q \<noteq> 0"
  shows "pow2 (exponent q) \<le> \<bar>q\<bar> \<and> \<bar>q\<bar> < pow2 (exponent q + 1)"
proof (cases "1 \<le> \<bar>q\<bar>")
  case True
  define n where "n = \<lfloor>\<bar>q\<bar>\<rfloor>"
  have n: "1 \<le> n" "of_int n \<le> \<bar>q\<bar>" "\<bar>q\<bar> < of_int n + 1"
    using True by (simp_all add: n_def le_floor_iff) linarith+
  then have "0 < n" by simp
  from bitlen_bounds [OF this]
  have b: "2 ^ nat (bitlen n - 1) \<le> n" "n < 2 ^ nat (bitlen n)"
    by simp_all
  have b1: "1 \<le> bitlen n"
    using \<open>0 < n\<close> bitlen_eq_zero_iff [of n] bitlen_nonneg [of n] by linarith
  have e: "exponent q = bitlen n - 1"
    using True by (simp add: exponent_def n_def)
  have "(2 :: rat) ^ nat (bitlen n - 1) \<le> of_int n"
    using b(1) by (metis of_int_le_iff of_int_numeral of_int_power)
  moreover have "of_int n + 1 \<le> (2 :: rat) ^ nat (bitlen n)"
  proof -
    have "n + 1 \<le> 2 ^ nat (bitlen n)" using b(2) by simp
    then have "(of_int (n + 1) :: rat) \<le> of_int (2 ^ nat (bitlen n))"
      by (simp only: of_int_le_iff)
    then show ?thesis by simp
  qed
  moreover have "pow2 (exponent q) = 2 ^ nat (bitlen n - 1)"
    using b1 by (simp add: e pow2_def)
  moreover have "pow2 (exponent q + 1) = 2 ^ nat (bitlen n)"
    using b1 by (simp add: e pow2_def)
  ultimately show ?thesis
    using n(2,3) by linarith
next
  case False
  define y where "y = 1 / \<bar>q\<bar>"
  define m where "m = \<lceil>y\<rceil> - 1"
  have q: "0 < \<bar>q\<bar>" "\<bar>q\<bar> < 1"
    using assms False by simp_all
  then have y: "1 < y" "\<bar>q\<bar> = 1 / y"
    by (simp_all add: y_def)
  have m: "of_int m < y" "y \<le> of_int m + 1"
    by (simp_all add: m_def) linarith+
  have "(0 :: rat) < of_int m"
    using y(1) m(2) by linarith
  then have "0 < m"
    by simp
  from bitlen_bounds [OF this]
  have b: "2 ^ nat (bitlen m - 1) \<le> m" "m < 2 ^ nat (bitlen m)"
    by simp_all
  have b1: "1 \<le> bitlen m"
    using \<open>0 < m\<close> bitlen_eq_zero_iff [of m] bitlen_nonneg [of m] by linarith
  have e: "exponent q = - bitlen m"
    using False by (simp add: exponent_def m_def y_def)
  have lo: "(2 :: rat) ^ nat (bitlen m - 1) \<le> of_int m"
    using b(1) by (metis of_int_le_iff of_int_numeral of_int_power)
  have hi: "of_int m + 1 \<le> (2 :: rat) ^ nat (bitlen m)"
  proof -
    have "m + 1 \<le> 2 ^ nat (bitlen m)" using b(2) by simp
    then have "(of_int (m + 1) :: rat) \<le> of_int (2 ^ nat (bitlen m))"
      by (simp only: of_int_le_iff)
    then show ?thesis by simp
  qed
  have p1: "pow2 (- bitlen m) = 1 / 2 ^ nat (bitlen m)"
    using b1 by (simp add: pow2_def)
  have p2: "pow2 (- bitlen m + 1) = 1 / 2 ^ nat (bitlen m - 1)"
    using b1 by (auto simp add: pow2_def)
  have "1 / 2 ^ nat (bitlen m) \<le> 1 / y"
    using hi m(2) y(1) by (intro divide_left_mono) (auto intro: mult_pos_pos)
  moreover have "1 / y < 1 / 2 ^ nat (bitlen m - 1)"
  proof -
    have lt: "2 ^ nat (bitlen m - 1) < y"
      using lo m(1) by linarith
    have "0 < y"
      using y(1) by linarith
    then show ?thesis
      by (intro divide_strict_left_mono [OF lt]) simp_all
  qed
  ultimately show ?thesis
    unfolding e p1 p2 y(2) by simp
qed

text \<open>One rounding moves a number by at most half a unit in the last place.\<close>

lemma float32_error:
  assumes "q \<noteq> 0"
  shows "\<bar>float32 q - q\<bar> \<le> pow2 (max (exponent q) (- 126) - 23) / 2"
proof -
  define ulp where "ulp = pow2 (max (exponent q) (- 126) - 23)"
  have "0 < ulp" by (simp add: ulp_def pow2_pos)
  have "float32 q - q = (of_int (round_half_even (q / ulp)) - q / ulp) * ulp"
    using assms \<open>0 < ulp\<close> by (simp add: float32_def ulp_def [symmetric] Let_def algebra_simps)
  then have "\<bar>float32 q - q\<bar> = \<bar>of_int (round_half_even (q / ulp)) - q / ulp\<bar> * ulp"
    using \<open>0 < ulp\<close> by (simp add: abs_mult)
  also have "\<dots> \<le> 1 / 2 * ulp"
    using round_half_even_error [of "q / ulp"] \<open>0 < ulp\<close> by (intro mult_right_mono) simp_all
  finally show ?thesis by (simp add: ulp_def)
qed

subsection \<open>Evaluating a rounding on numerals\<close>

lemma bitlen_numeral:
  "bitlen 1 = 1"
  "bitlen (numeral Num.One) = 1"
  "bitlen (numeral (Num.Bit0 n)) = bitlen (numeral n) + 1"
  "bitlen (numeral (Num.Bit1 n)) = bitlen (numeral n) + 1"
proof -
  show "bitlen 1 = 1"
    by (subst compute_bitlen) simp
  then show "bitlen (numeral Num.One) = 1"
    by simp
  show "bitlen (numeral (Num.Bit0 n)) = bitlen (numeral n) + 1"
    by (subst compute_bitlen) simp
  show "bitlen (numeral (Num.Bit1 n)) = bitlen (numeral n) + 1"
    by (subst compute_bitlen) simp
qed

lemma floor_rat_numeral:
  "\<lfloor>numeral a / numeral b :: rat\<rfloor> = numeral a div numeral b"
  "\<lfloor>- (numeral a / numeral b) :: rat\<rfloor> = - numeral a div numeral b"
  "\<lceil>numeral a / numeral b :: rat\<rceil> = - (- numeral a div numeral b)"
  "\<lfloor>1 / numeral b :: rat\<rfloor> = 1 div numeral b"
  "\<lfloor>- (1 / numeral b) :: rat\<rfloor> = - 1 div numeral b"
proof -
  show "\<lfloor>numeral a / numeral b :: rat\<rfloor> = numeral a div numeral b"
    using floor_divide_of_int_eq [of "numeral a" "numeral b", where ?'a = rat] by simp
  show "\<lfloor>- (numeral a / numeral b) :: rat\<rfloor> = - numeral a div numeral b"
    using floor_divide_of_int_eq [of "- numeral a" "numeral b", where ?'a = rat] by simp
  show "\<lceil>numeral a / numeral b :: rat\<rceil> = - (- numeral a div numeral b)"
    using floor_divide_of_int_eq [of "- numeral a" "numeral b", where ?'a = rat]
    by (simp add: ceiling_def)
  show "\<lfloor>1 / numeral b :: rat\<rfloor> = 1 div numeral b"
    using floor_divide_of_int_eq [of 1 "numeral b", where ?'a = rat] by simp
  show "\<lfloor>- (1 / numeral b) :: rat\<rfloor> = - 1 div numeral b"
    using floor_divide_of_int_eq [of "- 1" "numeral b", where ?'a = rat] by simp
qed

lemmas float32_eval =
  float32_def exponent_def pow2_def round_half_even_def bitlen_numeral floor_rat_numeral

text \<open>
  The constants of the two graphs are float32 numbers; the learning rate 0.01
  is not, and is rounded to \<open>5368709 / 2\<^sup>2\<^sup>9\<close>. The product of that rate with 10
  lies exactly half way between two float32 numbers and goes to the even one.
\<close>

lemma float32_constants:
  "float32 0 = 0" "float32 1 = 1" "float32 2 = 2" "float32 (- 10) = - 10"
  "float32 (- 20) = - 20" "float32 10 = 10"
  "float32 (1 / 100) = 5368709 / 536870912"
  by (simp_all add: float32_eval)

lemma float32_tie_to_even: "float32 (5368709 / 536870912 * 10) = 3355443 / 33554432"
  by (simp add: float32_eval)

subsection \<open>Tutorial 1 in float32: the values the notebook prints\<close>

lemma train1_float32_step:
  "train1_float32 \<lparr>w_value = w\<rparr> = \<lparr>w_value =
     float32 (w - float32 (5368709 / 536870912
       * float32 (float32 (float32 (float32 (2 * float32 w)) - 10))))\<rparr>"
  by (simp add: train1_float32_def minimize32_def cost1_def float32_constants)

lemma train1_float32_loop_numeral:
  "train1_float32_loop (numeral k) s = train1_float32_loop (pred_numeral k) (train1_float32 s)"
  by (simp add: numeral_eq_Suc)

lemma train1_float32_loop_add:
  "train1_float32_loop (m + n) s = train1_float32_loop n (train1_float32_loop m s)"
  by (induction m arbitrary: s) simp_all

lemma train1_float32_loop_fixed:
  "train1_float32 s = s \<Longrightarrow> train1_float32_loop n s = s"
  by (induction n) simp_all

lemmas train1_float32_eval =
  train1_float32_loop_numeral train1_float32_step float32_eval

lemma train1_float32_first: "train1_float32 run_init = \<lparr>w_value = 3355443 / 33554432\<rparr>"
  by (simp add: run_init_def train1_float32_step float32_eval)

lemma train1_float32_1_51:
  "train1_float32_loop 50 \<lparr>w_value = 3355443 / 33554432\<rparr>
     = \<lparr>w_value = 421471 / 131072\<rparr>"
  by (simp add: train1_float32_eval)

lemma train1_float32_51_101:
  "train1_float32_loop 50 \<lparr>w_value = 421471 / 131072\<rparr>
     = \<lparr>w_value = 2280739 / 524288\<rparr>"
  by (simp add: train1_float32_eval)

lemma train1_float32_101_151:
  "train1_float32_loop 50 \<lparr>w_value = 2280739 / 524288\<rparr>
     = \<lparr>w_value = 2497367 / 524288\<rparr>"
  by (simp add: train1_float32_eval)

lemma train1_float32_151_201:
  "train1_float32_loop 50 \<lparr>w_value = 2497367 / 524288\<rparr>
     = \<lparr>w_value = 10305027 / 2097152\<rparr>"
  by (simp add: train1_float32_eval)

lemma train1_float32_201_251:
  "train1_float32_loop 50 \<lparr>w_value = 10305027 / 2097152\<rparr>
     = \<lparr>w_value = 10419943 / 2097152\<rparr>"
  by (simp add: train1_float32_eval)

lemma train1_float32_251_301:
  "train1_float32_loop 50 \<lparr>w_value = 10419943 / 2097152\<rparr>
     = \<lparr>w_value = 10461791 / 2097152\<rparr>"
  by (simp add: train1_float32_eval)

lemma train1_float32_301_351:
  "train1_float32_loop 50 \<lparr>w_value = 10461791 / 2097152\<rparr>
     = \<lparr>w_value = 5238515 / 1048576\<rparr>"
  by (simp add: train1_float32_eval)

lemma train1_float32_351_401:
  "train1_float32_loop 50 \<lparr>w_value = 5238515 / 1048576\<rparr>
     = \<lparr>w_value = 10482581 / 2097152\<rparr>"
  by (simp add: train1_float32_eval)

lemma train1_float32_401_451:
  "train1_float32_loop 50 \<lparr>w_value = 10482581 / 2097152\<rparr>
     = \<lparr>w_value = 10484603 / 2097152\<rparr>"
  by (simp add: train1_float32_eval)

lemma train1_float32_451_501:
  "train1_float32_loop 50 \<lparr>w_value = 10484603 / 2097152\<rparr>
     = \<lparr>w_value = 10485339 / 2097152\<rparr>"
  by (simp add: train1_float32_eval)

lemma train1_float32_501_551:
  "train1_float32_loop 50 \<lparr>w_value = 10485339 / 2097152\<rparr>
     = \<lparr>w_value = 5242803 / 1048576\<rparr>"
  by (simp add: train1_float32_eval)

lemma train1_float32_551_601:
  "train1_float32_loop 50 \<lparr>w_value = 5242803 / 1048576\<rparr>
     = \<lparr>w_value = 10485701 / 2097152\<rparr>"
  by (simp add: train1_float32_eval)

lemma train1_float32_601_636:
  "train1_float32_loop 35 \<lparr>w_value = 10485701 / 2097152\<rparr>
     = \<lparr>w_value = 1310717 / 262144\<rparr>"
  by (simp add: train1_float32_eval)

lemma train1_float32_stalls:
  "train1_float32 \<lparr>w_value = 1310717 / 262144\<rparr> = \<lparr>w_value = 1310717 / 262144\<rparr>"
  by (simp add: train1_float32_step float32_eval)

lemma train1_float32_635:
  "train1_float32_loop 635 \<lparr>w_value = 3355443 / 33554432\<rparr> = \<lparr>w_value = 1310717 / 262144\<rparr>"
proof -
  have n: "(635 :: nat) = 50 + (50 + (50 + (50 + (50 + (50 + (50 + (50 + (50 + (50 + (50 + (50 + 35)))))))))))"
    by simp
  show ?thesis
    by (subst n) (simp only: train1_float32_loop_add train1_float32_1_51
        train1_float32_51_101
        train1_float32_101_151
        train1_float32_151_201
        train1_float32_201_251
        train1_float32_251_301
        train1_float32_301_351
        train1_float32_351_401
        train1_float32_401_451
        train1_float32_451_501
        train1_float32_501_551
        train1_float32_551_601
        train1_float32_601_636)
qed

text \<open>
  The float32 model gives the two numbers tutorial 1 records: \<open>0.099999994\<close>
  after one step and \<open>4.9999886\<close> after 1000 more (each printed decimal is
  rounded back to the float32 computed).
\<close>

lemma tutorial1_float32_prints:
  "tutorial1_float32 = (float32 (99999994 / 1000000000), float32 (49999886 / 10000000))"
proof -
  have "train1_float32_loop (635 + 365) \<lparr>w_value = 3355443 / 33554432\<rparr> = \<lparr>w_value = 1310717 / 262144\<rparr>"
    by (simp only: train1_float32_loop_add train1_float32_635
        train1_float32_loop_fixed [OF train1_float32_stalls])
  then have "train1_float32_loop 1000 \<lparr>w_value = 3355443 / 33554432\<rparr> = \<lparr>w_value = 1310717 / 262144\<rparr>"
    by simp
  moreover have "float32 (99999994 / 1000000000) = 3355443 / 33554432"
    by (simp add: float32_eval)
  moreover have "float32 (49999886 / 10000000) = 1310717 / 262144"
    by (simp add: float32_eval)
  ultimately show ?thesis
    by (simp add: tutorial1_float32_def train1_float32_first run_w_def)
qed

subsection \<open>Tutorial 2 in float32\<close>

lemma train2_float32_step:
  "train2_float32 coefficients \<lparr>w_value = w\<rparr> = Inr \<lparr>w_value =
     float32 (w - float32 (5368709 / 536870912
       * float32 (float32 (float32 (float32 (float32 (float32 (2 * float32 w)))) - 20))))\<rparr>"
  by (simp add: train2_float32_def minimize32_def cost2_def float32_constants)
    (simp add: coefficients_def float32_constants)

lemma train2_float32_loop_numeral:
  "train2_float32_loop (numeral k) x s =
     (case train2_float32 x s of
        Inl e \<Rightarrow> Inl e
      | Inr s' \<Rightarrow> train2_float32_loop (pred_numeral k) x s')"
  by (simp add: numeral_eq_Suc)

lemma train2_float32_loop_add:
  "train2_float32_loop (m + n) x s =
     (case train2_float32_loop m x s of
        Inl e \<Rightarrow> Inl e
      | Inr s' \<Rightarrow> train2_float32_loop n x s')"
  by (induction m arbitrary: s) (simp_all split: sum.splits)

lemma train2_float32_loop_fixed:
  "train2_float32 x s = Inr s \<Longrightarrow> train2_float32_loop n x s = Inr s"
  by (induction n) simp_all

lemmas train2_float32_eval =
  train2_float32_loop_numeral train2_float32_step float32_eval

lemma train2_float32_first:
  "train2_float32 coefficients run_init = Inr \<lparr>w_value = 3355443 / 16777216\<rparr>"
  by (simp add: run_init_def train2_float32_step float32_eval)

lemma train2_float32_1_51:
  "train2_float32_loop 50 coefficients \<lparr>w_value = 3355443 / 16777216\<rparr>
     = Inr \<lparr>w_value = 421471 / 65536\<rparr>"
  by (simp add: train2_float32_eval)

lemma train2_float32_51_101:
  "train2_float32_loop 50 coefficients \<lparr>w_value = 421471 / 65536\<rparr>
     = Inr \<lparr>w_value = 2280739 / 262144\<rparr>"
  by (simp add: train2_float32_eval)

lemma train2_float32_101_151:
  "train2_float32_loop 50 coefficients \<lparr>w_value = 2280739 / 262144\<rparr>
     = Inr \<lparr>w_value = 2497367 / 262144\<rparr>"
  by (simp add: train2_float32_eval)

lemma train2_float32_151_201:
  "train2_float32_loop 50 coefficients \<lparr>w_value = 2497367 / 262144\<rparr>
     = Inr \<lparr>w_value = 10305027 / 1048576\<rparr>"
  by (simp add: train2_float32_eval)

lemma train2_float32_201_251:
  "train2_float32_loop 50 coefficients \<lparr>w_value = 10305027 / 1048576\<rparr>
     = Inr \<lparr>w_value = 10419943 / 1048576\<rparr>"
  by (simp add: train2_float32_eval)

lemma train2_float32_251_301:
  "train2_float32_loop 50 coefficients \<lparr>w_value = 10419943 / 1048576\<rparr>
     = Inr \<lparr>w_value = 10461791 / 1048576\<rparr>"
  by (simp add: train2_float32_eval)

lemma train2_float32_301_351:
  "train2_float32_loop 50 coefficients \<lparr>w_value = 10461791 / 1048576\<rparr>
     = Inr \<lparr>w_value = 5238515 / 524288\<rparr>"
  by (simp add: train2_float32_eval)

lemma train2_float32_351_401:
  "train2_float32_loop 50 coefficients \<lparr>w_value = 5238515 / 524288\<rparr>
     = Inr \<lparr>w_value = 10482581 / 1048576\<rparr>"
  by (simp add: train2_float32_eval)

lemma train2_float32_401_451:
  "train2_float32_loop 50 coefficients \<lparr>w_value = 10482581 / 1048576\<rparr>
     = Inr \<lparr>w_value = 10484603 / 1048576\<rparr>"
  by (simp add: train2_float32_eval)

lemma train2_float32_451_501:
  "train2_float32_loop 50 coefficients \<lparr>w_value = 10484603 / 1048576\<rparr>
     = Inr \<lparr>w_value = 10485339 / 1048576\<rparr>"
  by (simp add: train2_float32_eval)

lemma train2_float32_501_551:
  "train2_float32_loop 50 coefficients \<lparr>w_value = 10485339 / 1048576\<rparr>
     = Inr \<lparr>w_value = 5242803 / 524288\<rparr>"
  by (simp add: train2_float32_eval)

lemma train2_float32_551_601:
  "train2_float32_loop 50 coefficients \<lparr>w_value = 5242803 / 524288\<rparr>
     = Inr \<lparr>w_value = 10485701 / 1048576\<rparr>"
  by (simp add: train2_float32_eval)

lemma train2_float32_601_636:
  "train2_float32_loop 35 coefficients \<lparr>w_value = 10485701 / 1048576\<rparr>
     = Inr \<lparr>w_value = 1310717 / 131072\<rparr>"
  by (simp add: train2_float32_eval)

text \<open>In float32 the step leaves 10 where it is, and also a number below 10.\<close>

lemma train2_float32_at_10:
  "train2_float32 coefficients \<lparr>w_value = 10\<rparr> = Inr \<lparr>w_value = 10\<rparr>"
  by (simp add: train2_float32_step float32_eval)

lemma train2_float32_stalls:
  "train2_float32 coefficients \<lparr>w_value = 1310717 / 131072\<rparr> = Inr \<lparr>w_value = 1310717 / 131072\<rparr>"
  by (simp add: train2_float32_step float32_eval)

lemma train2_float32_635:
  "train2_float32_loop 635 coefficients \<lparr>w_value = 3355443 / 16777216\<rparr> = Inr \<lparr>w_value = 1310717 / 131072\<rparr>"
proof -
  have n: "(635 :: nat) = 50 + (50 + (50 + (50 + (50 + (50 + (50 + (50 + (50 + (50 + (50 + (50 + 35)))))))))))"
    by simp
  show ?thesis
    by (subst n) (simp only: train2_float32_loop_add train2_float32_1_51
        train2_float32_51_101
        train2_float32_101_151
        train2_float32_151_201
        train2_float32_201_251
        train2_float32_251_301
        train2_float32_301_351
        train2_float32_351_401
        train2_float32_401_451
        train2_float32_451_501
        train2_float32_501_551
        train2_float32_551_601
        train2_float32_601_636 sum.case)
qed

lemma tutorial2_float32_value: "tutorial2_float32 = Inr (1310717 / 131072)"
proof -
  have "train2_float32_loop (635 + 365) coefficients \<lparr>w_value = 3355443 / 16777216\<rparr>
          = Inr \<lparr>w_value = 1310717 / 131072\<rparr>"
    by (simp only: train2_float32_loop_add train2_float32_635 sum.case
        train2_float32_loop_fixed [OF train2_float32_stalls])
  then have "train2_float32_loop 1000 coefficients \<lparr>w_value = 3355443 / 16777216\<rparr>
          = Inr \<lparr>w_value = 1310717 / 131072\<rparr>"
    by simp
  then show ?thesis
    by (simp add: tutorial2_float32_def train2_float32_first run_w_def)
qed

text \<open>
  Claim C9, as stated, fails on the program. The notebook computes in float32,
  and there the update has a fixed point other than 10: the step leaves
  \<open>w = 1310717 / 131072\<close> unchanged.
\<close>

theorem tutorial2_float32_second_fixed_point:
  "train2_float32 coefficients \<lparr>w_value = 1310717 / 131072\<rparr>
     = Inr \<lparr>w_value = 1310717 / 131072\<rparr>
   \<and> (1310717 / 131072 :: rat) \<noteq> 10"
  using train2_float32_stalls by simp

text \<open>
  Claim C9, amended. In tutorial 2, with the coefficients \<open>a = 1\<close>, \<open>b = -20\<close>,
  \<open>c = 100\<close> fed and learning rate 1/100, a training step is
  \<open>w \<leftarrow> w - (1/100) (2aw + b)\<close>. Taken in exact rational arithmetic its only
  fixed point is \<open>w = 10\<close>; in the float32 arithmetic of the notebook 10 is a
  fixed point, but not the only one. The notebook's run from \<open>w = 0\<close> (one
  step, then 1000 more: 1001 steps) ends with \<open>w\<close> within 1/1000 of 10, in
  exact arithmetic and in float32, where it ends at \<open>1310717 / 131072\<close>.
\<close>

theorem tutorial2_exact_and_float32:
  "(\<forall>s :: rat session. train2 coefficients s
        = Inr (s\<lparr>w_value := run_w s - (1 / 100) * (2 * 1 * run_w s + (- 20))\<rparr>))
   \<and> (\<forall>s :: rat session. (train2 coefficients s = Inr s) = (run_w s = 10))
   \<and> (\<exists>v. tutorial2 = Inr v \<and> \<bar>v - 10\<bar> < 1 / 1000)
   \<and> train2_float32 coefficients \<lparr>w_value = 10\<rparr> = Inr \<lparr>w_value = 10\<rparr>
   \<and> tutorial2_float32 = Inr (1310717 / 131072)
   \<and> \<bar>1310717 / 131072 - 10\<bar> < (1 / 1000 :: rat)"
proof -
  have "\<bar>1310717 / 131072 - 10\<bar> < (1 / 1000 :: rat)"
    by simp
  with tutorial2_exact train2_float32_at_10 tutorial2_float32_value show ?thesis
    by (elim conjE) (intro conjI; assumption)
qed

section \<open>The Happy House model: shapes and parameter counts\<close>

lemma conv_output_length_conv0:
  "conv_output_length (h + 6) 7 (Suc 0) = (if h = 0 then Inl ValueError else Inr h)"
  by (simp add: conv_output_length_def)

lemma conv_output_length_max_pool:
  "conv_output_length h 2 2 = (if h < 2 then Inl ValueError else Inr (h div 2))"
proof -
  have "(h - 2 + 1 + 2 - 1) div 2 = h div 2" if "2 \<le> h"
    using that by presburger
  then show ?thesis
    by (simp add: conv_output_length_def)
qed

text \<open>The rows of the model for any image that the pooling window fits.\<close>

lemma HappyModel_layers:
  assumes "2 \<le> h" "2 \<le> w" "0 < c"
  shows "HappyModel [h, w, c] = Inr \<lparr>layers =
     [([h, w, c], 0, 0),
      ([h + 6, w + 6, c], 0, 0),
      ([h, w, 32], 7 * 7 * c * 32 + 32, 0),
      ([h, w, 32], 64, 64),
      ([h, w, 32], 0, 0),
      ([h div 2, w div 2, 32], 0, 0),
      ([h div 2 * (w div 2) * 32], 0, 0),
      ([1], h div 2 * (w div 2) * 32 * 1 + 1, 0)]\<rparr>"
  using assms
  by (simp add: HappyModel_def Input_def call_def Model_def
      conv_output_length_conv0 conv_output_length_max_pool)

lemma HappyModel_fails:
  "h < 2 \<or> w < 2 \<or> c = 0 \<Longrightarrow> HappyModel [h, w, c] = Inl ValueError"
  by (auto simp add: HappyModel_def Input_def call_def Model_def
      conv_output_length_conv0 conv_output_length_max_pool)

text \<open>The table \<open>happyModel.summary()\<close> prints in the notebook.\<close>

lemma happyModel_layers:
  "happyModel = Inr \<lparr>layers =
     [([64, 64, 3], 0, 0),
      ([70, 70, 3], 0, 0),
      ([64, 64, 32], 4736, 0),
      ([64, 64, 32], 64, 64),
      ([64, 64, 32], 0, 0),
      ([32, 32, 32], 0, 0),
      ([32768], 0, 0),
      ([1], 32769, 0)]\<rparr>"
  by (simp add: happyModel_def HappyModel_layers)

lemma happyModel_summary:
  "map_sum id summary happyModel = Inr
     [([64, 64, 3], 0),
      ([70, 70, 3], 0),
      ([64, 64, 32], 4736),
      ([64, 64, 32], 128),
      ([64, 64, 32], 0),
      ([32, 32, 32], 0),
      ([32768], 0),
      ([1], 32769)]"
  by (simp add: happyModel_layers summary_def)

text \<open>
  Claim C1, as stated, fails. For input shape (64,64,3) the model's total
  parameter count is 37,633, but the expression
  \<open>32\<times>(7\<times>7\<times>3+1) + 2\<times>32 + (32\<times>32\<times>32\<times>1+1)\<close> is 37,569: the total is not equal
  to it.
\<close>

theorem HappyModel_params_formula_counterexample:
  "map_sum id total_params (HappyModel [64, 64, 3]) = Inr 37633
   \<and> 32 * (7 * 7 * 3 + 1) + 2 * 32 + (32 * 32 * 32 * 1 + 1) = (37569 :: nat)
   \<and> map_sum id total_params (HappyModel [64, 64, 3])
       \<noteq> Inr (32 * (7 * 7 * 3 + 1) + 2 * 32 + (32 * 32 * 32 * 1 + 1))"
  using happyModel_layers
  by (simp add: happyModel_def total_params_def trainable_count_def non_trainable_count_def)

text \<open>
  Claim C1, amended. For input shape (64,64,3), the stage sequence
  pad(3,3), conv(32 filters, 7x7, stride 1), normalize, activate(relu),
  maxpool(2x2), flatten, dense(1, sigmoid) built by \<open>HappyModel\<close> yields an
  output of shape (1,) per example, and its total trainable-plus-non-trainable
  parameter count equals \<open>32\<times>(7\<times>7\<times>3+1) + 4\<times>32 + (32\<times>32\<times>32\<times>1+1) = 37,633\<close>:
  the normalization stage holds \<open>4\<times>32\<close> parameters, of which \<open>2\<times>32\<close> are not
  trainable, and \<open>32\<times>(7\<times>7\<times>3+1) + 2\<times>32 + (32\<times>32\<times>32\<times>1+1)\<close> is the trainable
  count alone.
\<close>

theorem HappyModel_shape_and_params:
  "map_sum id output_shape (HappyModel [64, 64, 3]) = Inr [1]
   \<and> map_sum id total_params (HappyModel [64, 64, 3])
       = Inr (32 * (7 * 7 * 3 + 1) + 4 * 32 + (32 * 32 * 32 * 1 + 1))
   \<and> map_sum id total_params (HappyModel [64, 64, 3]) = Inr 37633
   \<and> map_sum id trainable_count (HappyModel [64, 64, 3])
       = Inr (32 * (7 * 7 * 3 + 1) + 2 * 32 + (32 * 32 * 32 * 1 + 1))
   \<and> map_sum id non_trainable_count (HappyModel [64, 64, 3]) = Inr (2 * 32)"
  using happyModel_layers
  by (simp add: happyModel_def output_shape_def total_params_def trainable_count_def
      non_trainable_count_def)

section \<open>Evaluation: loss and accuracy\<close>

lemma sigmoid_bounds: "0 < sigmoid z \<and> sigmoid z < 1"
  by (simp add: sigmoid_def add_pos_pos)

lemma binary_crossentropy_nonneg:
  assumes "0 < p" "p < 1"
  shows "0 \<le> binary_crossentropy y p"
proof -
  from assms have "ln p \<le> 0" "ln (1 - p) \<le> 0" by simp_all
  then show ?thesis
    by (cases y) (simp_all add: binary_crossentropy_def)
qed

lemma mean_nonneg: "(\<And>x. x \<in> set xs \<Longrightarrow> 0 \<le> x) \<Longrightarrow> 0 \<le> mean xs"
  by (simp add: mean_def sum_list_nonneg)

lemma sum_list_of_bool:
  "sum_list (map (\<lambda>x. of_bool (P x)) xs) = real (length (filter P xs))"
  by (induction xs) simp_all

lemma mean_of_bool:
  "mean (map (\<lambda>x. of_bool (P x)) xs) = real (length (filter P xs)) / real (length xs)"
  by (simp add: mean_def sum_list_of_bool)

lemma sigmoid_threshold:
  "(1 / 2 < sigmoid z) = (0 < z)"
  "(1 < sigmoid z * 2) = (0 < z)"
proof -
  have "0 < 1 + exp (- z)"
    by (simp add: add_pos_pos)
  then have "(1 / 2 < sigmoid z) = (1 + exp (- z) < 2)"
    by (simp add: sigmoid_def field_simps)
  then show "(1 / 2 < sigmoid z) = (0 < z)"
    by simp
  then show "(1 < sigmoid z * 2) = (0 < z)"
    by (simp add: field_simps)
qed

text \<open>
  Claim C7, as stated, fails: it speaks of every dataset, and on the dataset
  with no example \<open>evaluate\<close> returns no pair of loss and accuracy but fails.
\<close>

theorem evaluate_empty_dataset_counterexample:
  "evaluate id ([] :: (real \<times> bool) list) = Inl DataError"
  by (simp add: evaluate_def)

text \<open>
  Claim C7, amended. For every dataset with at least one example (in
  particular one of 150 examples evaluated in one batch), \<open>evaluate\<close> returns
  a pair (loss, accuracy) with loss \<open>\<ge> 0\<close> and accuracy in \<open>[0,1]\<close>, where the
  accuracy is the fraction of examples whose thresholded sigmoid output
  matches the binary label.
\<close>

theorem evaluate_loss_accuracy_bounds:
  assumes "dataset \<noteq> []"
  shows "\<exists>loss accuracy. evaluate net dataset = Inr (loss, accuracy)
     \<and> 0 \<le> loss \<and> 0 \<le> accuracy \<and> accuracy \<le> 1
     \<and> accuracy = real (length (filter (\<lambda>(x, y). (1 / 2 < sigmoid (net x)) = y) dataset))
                    / real (length dataset)"
proof -
  let ?match = "\<lambda>(x, y). (1 / 2 < sigmoid (net x)) = y"
  let ?loss = "mean (map (\<lambda>(x, y). binary_crossentropy y (predict net x)) dataset)"
  let ?acc = "mean (map (\<lambda>(x, y). binary_accuracy y (predict net x)) dataset)"
  have ev: "evaluate net dataset = Inr (?loss, ?acc)"
    using assms by (simp add: evaluate_def)
  have "(\<lambda>(x, y). binary_accuracy y (predict net x)) = (\<lambda>e. of_bool (?match e))"
    by (auto simp add: binary_accuracy_def predict_def fun_eq_iff)
  then have acc: "?acc = real (length (filter ?match dataset)) / real (length dataset)"
    by (simp add: mean_of_bool)
  have "0 \<le> ?loss"
    by (rule mean_nonneg)
      (auto simp add: predict_def sigmoid_bounds intro!: binary_crossentropy_nonneg)
  moreover have "0 \<le> ?acc"
    by (simp add: acc)
  moreover have "length (filter ?match dataset) \<le> length dataset"
    by (rule length_filter_le)
  then have "?acc \<le> 1"
    using assms by (simp add: acc divide_le_eq_1)
  ultimately show ?thesis
    using ev acc by blast
qed

text \<open>
  The theorem at a network that is not constant and four examples, two of
  them classified rightly: the accuracy is 1/2.
\<close>

theorem evaluate_loss_accuracy_bounds_witness:
  "[(1 :: real, True), (- 1, True), (2, False), (- 3, False)] \<noteq> []
   \<and> (\<exists>loss. evaluate (\<lambda>x. 3 * x) [(1, True), (- 1, True), (2, False), (- 3, False)]
                = Inr (loss, 1 / 2) \<and> 0 \<le> loss)"
  using evaluate_loss_accuracy_bounds
    [of "[(1 :: real, True), (- 1, True), (2, False), (- 3, False)]" "\<lambda>x. 3 * x"]
  by (auto simp add: sigmoid_threshold)

end
